theory Spec2Isabelle
  imports Complex_Main "HOL-Library.Word" "HOL-Library.Sublist"
begin

section \<open>JavaScript values\<close>

text \<open>
  A JavaScript string is a sequence of UTF-16 code units; \<open>startsWith\<close>, \<open>includes\<close>,
  \<open>===\<close> and \<open>trim\<close> all work on code units. A \<open>number\<close> is modelled by a rational:
  every finite double is one, and the payloads that reach the components are JSON, which
  carries neither NaN nor an infinity.
\<close>

type_synonym jsstring = "16 word list"

type_synonym jsnumber = rat

definition js :: "string \<Rightarrow> jsstring" where
  "js s = map of_char s"

text \<open>\<open>a || b\<close> on strings: the empty string is the only falsy string.\<close>

definition orElse :: "jsstring \<Rightarrow> jsstring \<Rightarrow> jsstring" where
  "orElse a b = (if a = [] then b else a)"

text \<open>\<open>s.startsWith(search)\<close>: the code units of \<open>search\<close> are the first ones of \<open>s\<close>.\<close>

fun startsWith :: "jsstring \<Rightarrow> jsstring \<Rightarrow> bool" where
  "startsWith s [] = True"
| "startsWith [] (c # cs) = False"
| "startsWith (x # xs) (c # cs) = (x = c \<and> startsWith xs cs)"

text \<open>\<open>xs.some(p)\<close> and \<open>xs.includes(x)\<close> on arrays (of strings: SameValueZero is equality).\<close>

fun some :: "('a \<Rightarrow> bool) \<Rightarrow> 'a list \<Rightarrow> bool" where
  "some p [] = False"
| "some p (x # xs) = (p x \<or> some p xs)"

fun includes_arr :: "'a list \<Rightarrow> 'a \<Rightarrow> bool" where
  "includes_arr [] y = False"
| "includes_arr (x # xs) y = (x = y \<or> includes_arr xs y)"

text \<open>\<open>Math.round\<close> rounds to the nearest integer, a half towards plus infinity.\<close>

definition Math_round :: "jsnumber \<Rightarrow> int" where
  "Math_round x = \<lfloor>x + 1 / 2\<rfloor>"

text \<open>
  An integer-valued number inside a template literal prints in decimal (below
  \<open>10\<^sup>2\<^sup>1\<close> in absolute value; JavaScript switches to the exponent form beyond).
\<close>

fun digits :: "nat \<Rightarrow> jsstring" where
  "digits n = (if n < 10 then [of_nat (48 + n)] else digits (n div 10) @ [of_nat (48 + n mod 10)])"

definition toString :: "int \<Rightarrow> jsstring" where
  "toString n = (if n < 0 then js ''-'' @ digits (nat (- n)) else digits (nat n))"

text \<open>
  \<open>s.trim()\<close> strips WhiteSpace and LineTerminator code units from both ends:
  TAB, LF, VT, FF, CR, SP, NBSP, U+1680, U+2000..U+200A, U+2028, U+2029, U+202F,
  U+205F, U+3000 and U+FEFF.
\<close>

definition isWhiteSpace :: "16 word \<Rightarrow> bool" where
  "isWhiteSpace c =
     (c = 0x09 \<or> c = 0x0A \<or> c = 0x0B \<or> c = 0x0C \<or> c = 0x0D \<or> c = 0x20 \<or> c = 0xA0 \<or>
      c = 0x1680 \<or> (0x2000 \<le> c \<and> c \<le> 0x200A) \<or> c = 0x2028 \<or> c = 0x2029 \<or>
      c = 0x202F \<or> c = 0x205F \<or> c = 0x3000 \<or> c = 0xFEFF)"

definition trim :: "jsstring \<Rightarrow> jsstring" where
  "trim s = rev (dropWhile isWhiteSpace (rev (dropWhile isWhiteSpace s)))"

subsection \<open>\<open>Map\<close>: keyed entries in insertion order\<close>

text \<open>
  \<open>Map.set\<close> replaces the value of a key that is present, where it stands, and appends a
  new key; \<open>Map.delete\<close> removes the key; \<open>Map.values()\<close> iterates in insertion order.
  \<open>new Map(prev)\<close> copies, so each update below returns a new list.
\<close>

type_synonym ('k, 'v) Map = "('k \<times> 'v) list"

fun Map_set :: "'k \<Rightarrow> 'v \<Rightarrow> ('k, 'v) Map \<Rightarrow> ('k, 'v) Map" where
  "Map_set k v [] = [(k, v)]"
| "Map_set k v (e # es) = (if fst e = k then (k, v) # es else e # Map_set k v es)"

fun Map_delete :: "'k \<Rightarrow> ('k, 'v) Map \<Rightarrow> ('k, 'v) Map" where
  "Map_delete k [] = []"
| "Map_delete k (e # es) = (if fst e = k then Map_delete k es else e # Map_delete k es)"

fun Map_get :: "('k, 'v) Map \<Rightarrow> 'k \<Rightarrow> 'v option" where
  "Map_get [] k = None"
| "Map_get (e # es) k = (if fst e = k then Some (snd e) else Map_get es k)"

definition Map_size :: "('k, 'v) Map \<Rightarrow> nat" where
  "Map_size m = length m"

definition Map_values :: "('k, 'v) Map \<Rightarrow> 'v list" where
  "Map_values m = map snd m"

section \<open>The collaborators: backend commands, settings, notifications\<close>

text \<open>
  A command of \<open>commands.*\<close> returns a promise of a tagged result,
  \<open>{status: "ok", data}\<close> or \<open>{status: "error", error}\<close>; the promise itself may reject,
  which the handlers catch.
\<close>

datatype 'a result = Ok 'a | Err jsstring

datatype 'a settled = Resolved 'a | Rejected

datatype command =
    CheckOllamaAvailable
  | GetAvailableAiModels
  | ListOllamaModels
  | GetRecommendedAiModel
  | PullOllamaModel jsstring
  | DeleteOllamaModel jsstring
  | TestAiEnhancement jsstring

datatype toast = Toast_success jsstring | Toast_error jsstring | Toast_info jsstring

text \<open>
  What a component shares with the outside: the notifications shown, the backend commands
  invoked, the persisted \<open>ai_selected_model\<close> setting, and the values handed to
  \<open>updateSetting("ai_selected_model", _)\<close>, each log in the order of the calls.
\<close>

record env =
  toasts :: "toast list"
  calls :: "command list"
  ai_selected_model :: "jsstring option"
  setting_writes :: "jsstring option list"

section \<open>AiModelDropdown\<close>

record AiModel =
  id' :: jsstring
  size_mb :: jsnumber
  speed :: jsstring
  quality :: jsstring
  notes' :: jsstring

record PullProgress =
  model_id :: jsstring
  status :: jsstring
  completed :: "jsnumber option"
  total :: "jsnumber option"
  percentage :: jsnumber

definition isModelDownloaded :: "jsstring list \<Rightarrow> jsstring \<Rightarrow> bool" where
  "isModelDownloaded downloadedModels modelId = some (\<lambda>m. startsWith m modelId) downloadedModels"

definition getModelProgress :: "(jsstring, PullProgress) Map \<Rightarrow> jsstring \<Rightarrow> PullProgress option" where
  "getModelProgress pullProgress modelId = Map_get pullProgress modelId"

definition isRecommended :: "jsstring \<Rightarrow> jsstring \<Rightarrow> bool" where
  "isRecommended recommendedModel modelId = (recommendedModel = modelId)"

text \<open>
  The progress block of a row that is pulling: the status phrase, the rounded percentage
  (shown only when positive), and the width of the bar in per cent.
\<close>

definition progressLabel :: "PullProgress \<Rightarrow> jsstring option" where
  "progressLabel progress =
     (if percentage progress > 0 then Some (toString (Math_round (percentage progress)) @ js ''%'')
      else None)"

definition progressBarWidth :: "PullProgress \<Rightarrow> jsnumber" where
  "progressBarWidth progress = min 100 (percentage progress)"

section \<open>AiModelSelector\<close>

datatype AiModelStatus = Ready | Pulling | Error | Not_installed | Ollama_unavailable

record AiModelSelector = env +
  availableModels :: "AiModel list"
  downloadedModels :: "jsstring list"
  modelStatus :: AiModelStatus
  showDropdown :: bool
  ollamaAvailable :: bool
  pullProgress :: "(jsstring, PullProgress) Map"
  recommendedModel :: jsstring

text \<open>The \<open>useState\<close> initial values, over the setting persisted before the mount.\<close>

definition initial :: "jsstring option \<Rightarrow> AiModelSelector" where
  "initial persisted =
     \<lparr>toasts = [], calls = [], ai_selected_model = persisted, setting_writes = [],
      availableModels = [], downloadedModels = [], modelStatus = Not_installed,
      showDropdown = False, ollamaAvailable = False, pullProgress = [],
      recommendedModel = []\<rparr>"

definition toast_show :: "toast \<Rightarrow> 'a env_scheme \<Rightarrow> 'a env_scheme" where
  "toast_show t s = s\<lparr>toasts := toasts s @ [t]\<rparr>"

definition invoke :: "command \<Rightarrow> 'a env_scheme \<Rightarrow> 'a env_scheme" where
  "invoke c s = s\<lparr>calls := calls s @ [c]\<rparr>"

text \<open>\<open>const selectedModel = getSetting("ai_selected_model") || ""\<close>\<close>

definition selectedModel :: "'a env_scheme \<Rightarrow> jsstring" where
  "selectedModel s = (case ai_selected_model s of None \<Rightarrow> [] | Some m \<Rightarrow> m)"

text \<open>
  Modelled from the spec: the Settings Accessor (\<open>hooks/useSettings\<close>) is not among the
  sources. \<open>updateSetting(key, value)\<close> persists the value over a key-value store; a
  persistence failure rejects and leaves the previous value in place. The call is logged
  when it is issued and the store holds the value once the promise has resolved.
\<close>

definition updateSetting_call :: "jsstring option \<Rightarrow> 'a env_scheme \<Rightarrow> 'a env_scheme" where
  "updateSetting_call v s = s\<lparr>setting_writes := setting_writes s @ [v]\<rparr>"

definition updateSetting_settled :: "jsstring option \<Rightarrow> unit settled \<Rightarrow> 'a env_scheme \<Rightarrow> 'a env_scheme" where
  "updateSetting_settled v w s = (case w of Resolved u \<Rightarrow> s\<lparr>ai_selected_model := v\<rparr> | Rejected \<Rightarrow> s)"

subsection \<open>Loading: \<open>loadModels\<close>, \<open>checkOllama\<close>, \<open>loadRecommendation\<close>\<close>

text \<open>
  An \<open>async\<close> function runs to its first \<open>await\<close> when called and resumes, once the
  awaited promise has settled, up to the next one. Each such stretch is a function on the
  state; whatever else is delivered in between acts on the state in between.
\<close>

definition loadModels_call :: "AiModelSelector \<Rightarrow> AiModelSelector" where
  "loadModels_call s = invoke GetAvailableAiModels s"

definition loadModels_available :: "AiModel list result settled \<Rightarrow> AiModelSelector \<Rightarrow> AiModelSelector" where
  "loadModels_available ra s =
     (case ra of
        Resolved availResult \<Rightarrow>
          invoke ListOllamaModels
            (case availResult of Ok d \<Rightarrow> s\<lparr>availableModels := d\<rparr> | Err e \<Rightarrow> s)
      | Rejected \<Rightarrow> s)"

definition loadModels_downloaded :: "jsstring list result settled \<Rightarrow> AiModelSelector \<Rightarrow> AiModelSelector" where
  "loadModels_downloaded rd s =
     (case rd of
        Resolved downloadedResult \<Rightarrow>
          (case downloadedResult of Ok d \<Rightarrow> s\<lparr>downloadedModels := d\<rparr> | Err e \<Rightarrow> s)
      | Rejected \<Rightarrow> s)"

text \<open>The stretches of \<open>loadModels\<close> after its call, with nothing delivered in between.\<close>

definition loadModels_rest :: "AiModel list result settled \<Rightarrow> jsstring list result settled \<Rightarrow> AiModelSelector \<Rightarrow> AiModelSelector" where
  "loadModels_rest ra rd s =
     (case ra of
        Resolved availResult \<Rightarrow> loadModels_downloaded rd (loadModels_available ra s)
      | Rejected \<Rightarrow> loadModels_available ra s)"

definition checkOllama_call :: "AiModelSelector \<Rightarrow> AiModelSelector" where
  "checkOllama_call s = invoke CheckOllamaAvailable s"

text \<open>\<open>sel\<close> is \<open>selectedModel\<close> as the render that created the closure saw it.\<close>

definition checkOllama_settled :: "jsstring \<Rightarrow> bool result settled \<Rightarrow> AiModelSelector \<Rightarrow> AiModelSelector" where
  "checkOllama_settled sel r s =
     (case r of
        Resolved result \<Rightarrow>
          (let available = (case result of Ok d \<Rightarrow> d | Err e \<Rightarrow> False) in
           s\<lparr>ollamaAvailable := available,
             modelStatus :=
               (if \<not> available then Ollama_unavailable
                else if sel \<noteq> [] then Ready
                else Not_installed)\<rparr>)
      | Rejected \<Rightarrow> s\<lparr>ollamaAvailable := False, modelStatus := Ollama_unavailable\<rparr>)"

definition loadRecommendation_call :: "AiModelSelector \<Rightarrow> AiModelSelector" where
  "loadRecommendation_call s = invoke GetRecommendedAiModel s"

definition loadRecommendation_settled :: "jsstring result settled \<Rightarrow> AiModelSelector \<Rightarrow> AiModelSelector" where
  "loadRecommendation_settled r s =
     (case r of
        Resolved result \<Rightarrow>
          (case result of Ok d \<Rightarrow> (if d \<noteq> [] then s\<lparr>recommendedModel := d\<rparr> else s) | Err e \<Rightarrow> s)
      | Rejected \<Rightarrow> s)"

text \<open>The mount effect calls the three loaders, in this order, and subscribes the listeners.\<close>

definition mount :: "AiModelSelector \<Rightarrow> AiModelSelector" where
  "mount s = loadRecommendation_call (checkOllama_call (loadModels_call s))"

subsection \<open>The two event listeners\<close>

text \<open>
  \<open>onPullProgress\<close> is the listener of \<open>ai-model-pull-progress\<close> (the one whose
  unsubscribe handle is \<open>progressUnlisten\<close>), applied to the event's payload;
  \<open>onPullComplete\<close> is the listener of \<open>ai-model-pull-complete\<close> (\<open>completeUnlisten\<close>).
  \<open>loadModels()\<close> is called without \<open>await\<close>: it runs up to its first backend call.
\<close>

definition onPullProgress :: "PullProgress \<Rightarrow> AiModelSelector \<Rightarrow> AiModelSelector" where
  "onPullProgress progress s =
     s\<lparr>pullProgress := Map_set (model_id progress) progress (pullProgress s),
       modelStatus := Pulling\<rparr>"

definition onPullComplete :: "jsstring \<Rightarrow> AiModelSelector \<Rightarrow> AiModelSelector" where
  "onPullComplete modelId s =
     (toast_show (Toast_success (modelId @ js '' downloaded successfully!''))
        (loadModels_call (s\<lparr>pullProgress := Map_delete modelId (pullProgress s)\<rparr>)))
     \<lparr>modelStatus := Ready\<rparr>"

subsection \<open>\<open>handleModelSelect\<close>, \<open>handleModelPull\<close>, \<open>handleModelDelete\<close>\<close>

definition handleModelSelect_call :: "jsstring \<Rightarrow> AiModelSelector \<Rightarrow> AiModelSelector" where
  "handleModelSelect_call modelId s = updateSetting_call (Some modelId) s"

definition handleModelSelect_settled :: "jsstring \<Rightarrow> unit settled \<Rightarrow> AiModelSelector \<Rightarrow> AiModelSelector" where
  "handleModelSelect_settled modelId w s =
     (case w of
        Resolved u \<Rightarrow>
          toast_show (Toast_success (js ''Switched to '' @ modelId))
            ((updateSetting_settled (Some modelId) w s)\<lparr>modelStatus := Ready, showDropdown := False\<rparr>)
      | Rejected \<Rightarrow> toast_show (Toast_error (js ''Failed to select model'')) s)"

definition handleModelSelect :: "jsstring \<Rightarrow> unit settled \<Rightarrow> AiModelSelector \<Rightarrow> AiModelSelector" where
  "handleModelSelect modelId w s = handleModelSelect_settled modelId w (handleModelSelect_call modelId s)"

definition handleModelPull_call :: "jsstring \<Rightarrow> AiModelSelector \<Rightarrow> AiModelSelector" where
  "handleModelPull_call modelId s =
     invoke (PullOllamaModel modelId)
       (toast_show (Toast_info (js ''Pulling '' @ modelId @ js ''... This may take a few minutes.''))
          (s\<lparr>modelStatus := Pulling\<rparr>))"

definition handleModelPull_result :: "jsstring \<Rightarrow> unit result settled \<Rightarrow> AiModelSelector \<Rightarrow> AiModelSelector" where
  "handleModelPull_result modelId r s =
     (case r of
        Resolved result \<Rightarrow>
          (case result of
             Ok u \<Rightarrow> handleModelSelect_call modelId s
           | Err e \<Rightarrow>
               (toast_show (Toast_error (orElse e (js ''Failed to pull model''))) s)
               \<lparr>modelStatus := Error, pullProgress := Map_delete modelId (pullProgress s)\<rparr>)
      | Rejected \<Rightarrow>
          (toast_show (Toast_error (js ''Failed to pull model'')) s)
          \<lparr>modelStatus := Error, pullProgress := Map_delete modelId (pullProgress s)\<rparr>)"

text \<open>
  The whole of \<open>handleModelPull\<close> with nothing delivered in between: \<open>r\<close> is what
  \<open>commands.pullOllamaModel\<close> settles to and \<open>w\<close> what \<open>updateSetting\<close> does, which is
  awaited on the success path only.
\<close>

definition handleModelPull :: "jsstring \<Rightarrow> unit result settled \<Rightarrow> unit settled \<Rightarrow> AiModelSelector \<Rightarrow> AiModelSelector" where
  "handleModelPull modelId r w s =
     (let s' = handleModelPull_result modelId r (handleModelPull_call modelId s) in
      case r of
        Resolved result \<Rightarrow>
          (case result of Ok u \<Rightarrow> handleModelSelect_settled modelId w s' | Err e \<Rightarrow> s')
      | Rejected \<Rightarrow> s')"

text \<open>\<open>confirmed\<close> is the answer to the blocking \<open>confirm\<close> prompt.\<close>

definition handleModelDelete_call :: "jsstring \<Rightarrow> bool \<Rightarrow> AiModelSelector \<Rightarrow> AiModelSelector" where
  "handleModelDelete_call modelId confirmed s =
     (if \<not> confirmed then s else invoke (DeleteOllamaModel modelId) s)"

definition handleModelDelete_result :: "jsstring \<Rightarrow> unit result settled \<Rightarrow> AiModelSelector \<Rightarrow> AiModelSelector" where
  "handleModelDelete_result modelId r s =
     (case r of
        Resolved result \<Rightarrow>
          (case result of
             Ok u \<Rightarrow> loadModels_call (toast_show (Toast_success (modelId @ js '' deleted'')) s)
           | Err e \<Rightarrow> toast_show (Toast_error (orElse e (js ''Failed to delete model''))) s)
      | Rejected \<Rightarrow> toast_show (Toast_error (js ''Failed to delete model'')) s)"

text \<open>
  After \<open>await loadModels()\<close>: \<open>sel\<close> is the \<open>selectedModel\<close> of the render the handler
  was created in, compared with \<open>===\<close>.
\<close>

definition handleModelDelete_loaded :: "jsstring \<Rightarrow> jsstring \<Rightarrow> AiModelSelector \<Rightarrow> AiModelSelector" where
  "handleModelDelete_loaded modelId sel s =
     (if sel = modelId then updateSetting_call None s else s)"

definition handleModelDelete_settled :: "jsstring \<Rightarrow> jsstring \<Rightarrow> unit settled \<Rightarrow> AiModelSelector \<Rightarrow> AiModelSelector" where
  "handleModelDelete_settled modelId sel w s =
     (if sel = modelId then
        (case w of
           Resolved u \<Rightarrow> (updateSetting_settled None w s)\<lparr>modelStatus := Not_installed\<rparr>
         | Rejected \<Rightarrow> toast_show (Toast_error (js ''Failed to delete model'')) s)
      else s)"

definition handleModelDelete ::
  "jsstring \<Rightarrow> bool \<Rightarrow> unit result settled \<Rightarrow> AiModel list result settled \<Rightarrow>
   jsstring list result settled \<Rightarrow> unit settled \<Rightarrow> AiModelSelector \<Rightarrow> AiModelSelector" where
  "handleModelDelete modelId confirmed r ra rd w s =
     (if \<not> confirmed then handleModelDelete_call modelId confirmed s
      else
        (let sel = selectedModel s;
             s' = handleModelDelete_result modelId r (handleModelDelete_call modelId confirmed s)
         in case r of
              Resolved result \<Rightarrow>
                (case result of
                   Ok u \<Rightarrow>
                     handleModelDelete_settled modelId sel w
                       (handleModelDelete_loaded modelId sel (loadModels_rest ra rd s'))
                 | Err e \<Rightarrow> s')
            | Rejected \<Rightarrow> s'))"

subsection \<open>\<open>getDisplayText\<close>\<close>

text \<open>
  \<open>pullProgress.size > 0\<close> holds exactly when \<open>Array.from(pullProgress.values())\<close> has a
  first element, which \<open>const [progress] = ...\<close> takes.
\<close>

definition getDisplayText :: "AiModelSelector \<Rightarrow> jsstring" where
  "getDisplayText s =
     (case Map_values (pullProgress s) of
        progress # rest \<Rightarrow>
          (if percentage progress > 0
           then js ''Pulling '' @ toString (Math_round (percentage progress)) @ js ''%''
           else js ''Pulling '' @ status progress @ js ''...'')
      | [] \<Rightarrow>
          (case modelStatus s of
             Ready \<Rightarrow> orElse (selectedModel s) (js ''No Model Selected'')
           | Pulling \<Rightarrow> js ''Pulling model...''
           | Error \<Rightarrow> js ''Error''
           | Not_installed \<Rightarrow> js ''No Model - Pull Required''
           | Ollama_unavailable \<Rightarrow> js ''Ollama Not Running''))"

text \<open>What the dropdown's row of a model reads as the percentage of its progress entry.\<close>

definition shownPercentage :: "AiModelSelector \<Rightarrow> jsstring \<Rightarrow> jsnumber option" where
  "shownPercentage s modelId = map_option percentage (getModelProgress (pullProgress s) modelId)"

text \<open>The readings of a model's row after each of a sequence of progress events.\<close>

fun shownAfterEach :: "AiModelSelector \<Rightarrow> PullProgress list \<Rightarrow> jsstring \<Rightarrow> jsnumber option list" where
  "shownAfterEach s [] modelId = []"
| "shownAfterEach s (p # ps) modelId =
     shownPercentage (onPullProgress p s) modelId # shownAfterEach (onPullProgress p s) ps modelId"

text \<open>A progress payload as the backend emits it while downloading.\<close>

definition downloading :: "jsstring \<Rightarrow> jsnumber \<Rightarrow> PullProgress" where
  "downloading modelId pct =
     \<lparr>model_id = modelId, status = js ''downloading'', completed = None, total = None,
      percentage = pct\<rparr>"

section \<open>AiEnhancementSettings: the test panel\<close>

text \<open>
  Of the component's state, \<open>handleTestEnhancement\<close> reads \<open>testText\<close> and writes
  \<open>testResult\<close> and \<open>isTesting\<close>.
\<close>

record AiEnhancementSettings = env +
  testText :: jsstring
  testResult :: jsstring
  isTesting :: bool

definition handleTestEnhancement_call :: "AiEnhancementSettings \<Rightarrow> AiEnhancementSettings" where
  "handleTestEnhancement_call s =
     (if trim (testText s) = [] then toast_show (Toast_error (js ''Please enter some text to test'')) s
      else invoke (TestAiEnhancement (testText s)) (s\<lparr>isTesting := True, testResult := []\<rparr>))"

definition handleTestEnhancement_settled :: "jsstring result settled \<Rightarrow> AiEnhancementSettings \<Rightarrow> AiEnhancementSettings" where
  "handleTestEnhancement_settled r s =
     (case r of
        Resolved result \<Rightarrow>
          (case result of
             Ok d \<Rightarrow> toast_show (Toast_success (js ''Enhancement complete!'')) (s\<lparr>testResult := d\<rparr>)
           | Err e \<Rightarrow> toast_show (Toast_error (orElse e (js ''Enhancement failed''))) s)
      | Rejected \<Rightarrow> toast_show (Toast_error (js ''Enhancement failed'')) s)
     \<lparr>isTesting := False\<rparr>"

text \<open>The whole handler: the early \<open>return\<close> leaves nothing to settle.\<close>

definition handleTestEnhancement :: "jsstring result settled \<Rightarrow> AiEnhancementSettings \<Rightarrow> AiEnhancementSettings" where
  "handleTestEnhancement r s =
     (if trim (testText s) = [] then handleTestEnhancement_call s
      else handleTestEnhancement_settled r (handleTestEnhancement_call s))"

section \<open>AiStatusIndicator: \<open>checkStatus\<close>\<close>

datatype AiStatus = Ai_ready | Ai_loading | Ai_pulling | Ai_error | Ai_off | Ai_no_ollama

text \<open>
  The state \<open>checkStatus\<close> writes; the indicator's own \<open>pullProgress\<close> and \<open>showTooltip\<close>
  are not touched by it. The fields carry a prefix where the selector has the same name.
\<close>

record AiStatusIndicator = env +
  ind_status :: AiStatus
  currentModel :: jsstring
  ind_downloadedModels :: "jsstring list"
  ind_ollamaAvailable :: bool

definition checkStatus_call :: "AiStatusIndicator \<Rightarrow> AiStatusIndicator" where
  "checkStatus_call s = invoke CheckOllamaAvailable s"

text \<open>
  After \<open>await commands.checkOllamaAvailable()\<close>; the second component says whether the
  function goes on to \<open>commands.listOllamaModels()\<close> or has returned.
\<close>

definition checkStatus_available :: "bool \<Rightarrow> bool result settled \<Rightarrow> AiStatusIndicator \<Rightarrow> AiStatusIndicator \<times> bool" where
  "checkStatus_available aiEnabled ra s =
     (case ra of
        Resolved available \<Rightarrow>
          (let isAvailable = (case available of Ok d \<Rightarrow> d | Err e \<Rightarrow> False);
               s' = s\<lparr>ind_ollamaAvailable := isAvailable\<rparr>
           in if \<not> isAvailable then (s'\<lparr>ind_status := Ai_no_ollama\<rparr>, False)
              else if \<not> aiEnabled then (s'\<lparr>ind_status := Ai_off\<rparr>, False)
              else (invoke ListOllamaModels s', True))
      | Rejected \<Rightarrow> (s\<lparr>ind_status := Ai_error\<rparr>, False))"

definition checkStatus_models :: "jsstring \<Rightarrow> jsstring list result settled \<Rightarrow> AiStatusIndicator \<Rightarrow> AiStatusIndicator" where
  "checkStatus_models sel rm s =
     (case rm of
        Resolved models \<Rightarrow>
          (case models of
             Ok d \<Rightarrow>
               (let s' = s\<lparr>ind_downloadedModels := d\<rparr>
                in if sel \<noteq> [] \<and> includes_arr d sel
                   then s'\<lparr>currentModel := sel, ind_status := Ai_ready\<rparr>
                   else if sel \<noteq> [] then s'\<lparr>ind_status := Ai_loading\<rparr>
                   else s'\<lparr>ind_status := Ai_off\<rparr>)
           | Err e \<Rightarrow> s)
      | Rejected \<Rightarrow> s\<lparr>ind_status := Ai_error\<rparr>)"

definition checkStatus :: "bool \<Rightarrow> jsstring \<Rightarrow> bool result settled \<Rightarrow> jsstring list result settled \<Rightarrow> AiStatusIndicator \<Rightarrow> AiStatusIndicator" where
  "checkStatus aiEnabled sel ra rm s =
     (case checkStatus_available aiEnabled ra (checkStatus_call s) of
        (s', goes_on) \<Rightarrow> if goes_on then checkStatus_models sel rm s' else s')"

definition indicator_initial :: "jsstring option \<Rightarrow> AiStatusIndicator" where
  "indicator_initial persisted =
     \<lparr>toasts = [], calls = [], ai_selected_model = persisted, setting_writes = [],
      ind_status = Ai_off, currentModel = [], ind_downloadedModels = [],
      ind_ollamaAvailable = False\<rparr>"

section \<open>Example runs\<close>

text \<open>
  The selector after its mount with no model selected, once \<open>checkOllama\<close> has settled:
  with the backend reported down, and with it reported up.
\<close>

definition unavailable_state :: AiModelSelector where
  "unavailable_state = checkOllama_settled [] (Resolved (Ok False)) (mount (initial None))"

definition available_state :: AiModelSelector where
  "available_state = checkOllama_settled [] (Resolved (Ok True)) (mount (initial None))"

text \<open>A progress event at 50 per cent reaches the selector whose backend is down.\<close>

definition unavailable_progress :: AiModelSelector where
  "unavailable_progress = onPullProgress (downloading (js ''fast-1b'') 50) unavailable_state"

text \<open>A pull of \<open>fast-1b\<close> is in flight and its first progress event has arrived.\<close>

definition pulling_state :: AiModelSelector where
  "pulling_state =
     onPullProgress (downloading (js ''fast-1b'') 50)
       (handleModelPull_call (js ''fast-1b'') available_state)"

text \<open>A second pull, of \<open>big-7b\<close>, has started beside it and reported 10 per cent.\<close>

definition two_pulls :: AiModelSelector where
  "two_pulls =
     onPullProgress (downloading (js ''big-7b'') 10)
       (handleModelPull_call (js ''big-7b'') pulling_state)"

text \<open>The selector mounted with \<open>fast-1b\<close> as the persisted selection, the backend up.\<close>

definition selected_state :: AiModelSelector where
  "selected_state =
     checkOllama_settled (js ''fast-1b'') (Resolved (Ok True))
       (mount (initial (Some (js ''fast-1b''))))"

text \<open>The test panel holding a previous result and a text of SP, TAB, NBSP and LF.\<close>

definition blank_panel :: AiEnhancementSettings where
  "blank_panel =
     \<lparr>toasts = [], calls = [], ai_selected_model = None, setting_writes = [],
      testText = [0x20, 0x09, 0xA0, 0x0A], testResult = js ''Hello, world.'',
      isTesting = False\<rparr>"

section \<open>Facts about the JavaScript operations\<close>

lemma startsWith_prefix: "startsWith s p \<longleftrightarrow> prefix p s"
  by (induction s p rule: startsWith.induct) auto

lemma some_iff_Bex: "some p xs \<longleftrightarrow> (\<exists>x \<in> set xs. p x)"
  by (induction xs) simp_all

lemma includes_arr_iff: "includes_arr xs y \<longleftrightarrow> y \<in> set xs"
  by (induction xs) auto

lemma Map_get_set: "Map_get (Map_set k v m) k' = (if k' = k then Some v else Map_get m k')"
  by (induction m) auto

lemma Map_get_delete: "Map_get (Map_delete k m) k' = (if k' = k then None else Map_get m k')"
  by (induction m) auto

lemma Map_delete_filter: "Map_delete k m = filter (\<lambda>e. fst e \<noteq> k) m"
  by (induction m) auto

lemma Map_set_nonempty: "Map_set k v m \<noteq> []"
  by (cases m) auto

text \<open>The keys of a \<open>Map\<close> stay pairwise distinct under \<open>set\<close> and \<open>delete\<close>.\<close>

lemma Map_set_keys: "fst ` set (Map_set k v m) = insert k (fst ` set m)"
  by (induction m) auto

lemma Map_keys_distinct_set: "distinct (map fst m) \<Longrightarrow> distinct (map fst (Map_set k v m))"
  by (induction m) (auto simp: Map_set_keys)

lemma Map_keys_distinct_delete: "distinct (map fst m) \<Longrightarrow> distinct (map fst (Map_delete k m))"
  by (simp add: Map_delete_filter distinct_map_filter)

lemma all_dropWhile: "(\<forall>x \<in> set (dropWhile P s). P x) \<longleftrightarrow> (\<forall>x \<in> set s. P x)"
  by (induction s) auto

lemma trim_empty_iff: "trim s = [] \<longleftrightarrow> (\<forall>c \<in> set s. isWhiteSpace c)"
  by (simp add: trim_def all_dropWhile)

lemma Math_round_round: "Math_round x = round x"
  by (simp add: Math_round_def round_def)

lemmas selector_defs =
  onPullProgress_def onPullComplete_def checkOllama_settled_def mount_def initial_def
  loadModels_call_def checkOllama_call_def loadRecommendation_call_def invoke_def toast_show_def
  handleModelSelect_call_def handleModelSelect_settled_def handleModelPull_call_def
  handleModelPull_result_def handleModelPull_def updateSetting_call_def updateSetting_settled_def

lemmas delete_defs =
  handleModelDelete_def handleModelDelete_call_def handleModelDelete_result_def
  handleModelDelete_loaded_def handleModelDelete_settled_def loadModels_rest_def
  loadModels_available_def loadModels_downloaded_def

lemma Math_round_le_100: "x \<le> 100 \<Longrightarrow> Math_round x \<le> 100"
  unfolding Math_round_def by linarith

lemma Math_round_mono: "x \<le> y \<Longrightarrow> Math_round x \<le> Math_round y"
  unfolding Math_round_def by (simp add: floor_mono)

text \<open>A progress event overwrites the reading of its own model and of no other.\<close>

lemma shownPercentage_onPullProgress:
  "shownPercentage (onPullProgress p s) modelId
     = (if model_id p = modelId then Some (percentage p) else shownPercentage s modelId)"
  by (simp add: shownPercentage_def getModelProgress_def onPullProgress_def Map_get_set)

lemma shownAfterEach_same_id:
  "\<forall>p \<in> set evs. model_id p = modelId \<Longrightarrow>
     shownAfterEach s evs modelId = map (\<lambda>p. Some (percentage p)) evs"
  by (induction evs arbitrary: s) (simp_all add: shownPercentage_onPullProgress)

section \<open>The claims\<close>

subsection \<open>C1: the priority chain of the status and its display\<close>

text \<open>
  C1, as amended. The display text is a priority chain evaluated on every state, with the
  progress map first: when any progress entry exists the display reads \<open>Pulling ...\<close> (the
  rounded percentage of the first entry when it is positive, its status phrase
  otherwise), whatever the stored status and the backend availability are; with no entry
  it reads the stored status: \<open>Ollama Not Running\<close>, \<open>Pulling model...\<close>, \<open>Error\<close>,
  \<open>No Model - Pull Required\<close>, or for \<open>ready\<close> the selected model (\<open>No Model Selected\<close>
  when there is none). The status is stored, not derived: a progress event writes
  \<open>pulling\<close> and leaves the availability flag as it was.
\<close>

theorem C1_display_priority_chain:
  "(pullProgress s = (k, progress) # rest \<longrightarrow>
      getDisplayText s =
        (if percentage progress > 0
         then js ''Pulling '' @ toString (Math_round (percentage progress)) @ js ''%''
         else js ''Pulling '' @ status progress @ js ''...'')
      \<and> prefix (js ''Pulling '') (getDisplayText s))
   \<and> (pullProgress s = [] \<longrightarrow>
      getDisplayText s =
        (case modelStatus s of
           Ollama_unavailable \<Rightarrow> js ''Ollama Not Running''
         | Pulling \<Rightarrow> js ''Pulling model...''
         | Error \<Rightarrow> js ''Error''
         | Not_installed \<Rightarrow> js ''No Model - Pull Required''
         | Ready \<Rightarrow> (if selectedModel s = [] then js ''No Model Selected'' else selectedModel s)))
   \<and> modelStatus (onPullProgress q s) = Pulling
   \<and> pullProgress (onPullProgress q s) \<noteq> []
   \<and> ollamaAvailable (onPullProgress q s) = ollamaAvailable s"
  by (auto simp: getDisplayText_def Map_values_def onPullProgress_def Map_set_nonempty orElse_def
      split: AiModelStatus.splits)

text \<open>
  The chain at the two example states: one progress entry at 50 per cent, and no entry
  with the stored status \<open>ollama_unavailable\<close>.
\<close>

theorem C1_display_priority_chain_witness:
  "pullProgress unavailable_progress = [(js ''fast-1b'', downloading (js ''fast-1b'') 50)]
   \<and> getDisplayText unavailable_progress = js ''Pulling 50%''
   \<and> pullProgress unavailable_state = []
   \<and> modelStatus unavailable_state = Ollama_unavailable
   \<and> getDisplayText unavailable_state = js ''Ollama Not Running''"
  using C1_display_priority_chain
      [of unavailable_progress "js ''fast-1b''" "downloading (js ''fast-1b'') 50" "[]"]
    C1_display_priority_chain [of unavailable_state]
  by (simp add: unavailable_progress_def unavailable_state_def selector_defs downloading_def
      toString_def Math_round_round js_def)

text \<open>
  C1 as stated fails: the backend is unavailable and the progress map is not empty, yet
  the stored status is \<open>pulling\<close> and the display reads \<open>Pulling 50%\<close>.
\<close>

theorem C1_unavailable_masked_counterexample:
  "\<not> ollamaAvailable unavailable_progress
   \<and> Map_size (pullProgress unavailable_progress) > 0
   \<and> modelStatus unavailable_progress = Pulling
   \<and> modelStatus unavailable_progress \<noteq> Ollama_unavailable
   \<and> getDisplayText unavailable_progress = js ''Pulling 50%''
   \<and> getDisplayText unavailable_progress \<noteq> js ''Ollama Not Running''"
  by (simp add: unavailable_progress_def unavailable_state_def selector_defs downloading_def
      getDisplayText_def Map_size_def Map_values_def toString_def Math_round_round js_def)

subsection \<open>C2: a pull while the backend is unavailable\<close>

text \<open>
  C2, as amended. \<open>handleModelPull\<close> does not consult the backend availability: for every
  model id and every state it stores the status \<open>pulling\<close>, shows the info notification
  and makes exactly one backend call, \<open>pullOllamaModel(id)\<close>, leaving the availability
  flag alone; an unavailable backend shows only through that call's failure, after which
  the stored status is \<open>error\<close>.
\<close>

theorem C2_pull_ignores_availability:
  "calls (handleModelPull_call modelId s) = calls s @ [PullOllamaModel modelId]
   \<and> modelStatus (handleModelPull_call modelId s) = Pulling
   \<and> toasts (handleModelPull_call modelId s)
       = toasts s @ [Toast_info (js ''Pulling '' @ modelId @ js ''... This may take a few minutes.'')]
   \<and> ollamaAvailable (handleModelPull_call modelId s) = ollamaAvailable s
   \<and> modelStatus (handleModelPull modelId (Resolved (Err e)) w s) = Error
   \<and> modelStatus (handleModelPull modelId Rejected w s) = Error"
  by (simp add: selector_defs)

text \<open>The same at the state whose backend is down.\<close>

theorem C2_pull_ignores_availability_witness:
  "ollamaAvailable unavailable_state = False
   \<and> calls (handleModelPull_call (js ''fast-1b'') unavailable_state)
       = [GetAvailableAiModels, CheckOllamaAvailable, GetRecommendedAiModel,
          PullOllamaModel (js ''fast-1b'')]
   \<and> modelStatus (handleModelPull_call (js ''fast-1b'') unavailable_state) = Pulling
   \<and> modelStatus (handleModelPull (js ''fast-1b'') (Resolved (Err (js ''connection refused'')))
        (Resolved ()) unavailable_state) = Error"
  using C2_pull_ignores_availability
      [of "js ''fast-1b''" unavailable_state "js ''connection refused''" "Resolved ()"]
  by (simp add: unavailable_state_def selector_defs)

text \<open>
  C2 as stated fails: with the backend unavailable, a pull of \<open>fast-1b\<close> makes a backend
  call and the status reads \<open>pulling\<close>.
\<close>

theorem C2_pull_when_unavailable_counterexample:
  "\<not> ollamaAvailable unavailable_state
   \<and> calls (handleModelPull_call (js ''fast-1b'') unavailable_state)
       = calls unavailable_state @ [PullOllamaModel (js ''fast-1b'')]
   \<and> modelStatus (handleModelPull_call (js ''fast-1b'') unavailable_state) = Pulling
   \<and> modelStatus (handleModelPull_call (js ''fast-1b'') unavailable_state) \<noteq> Ollama_unavailable"
  by (simp add: unavailable_state_def selector_defs)

subsection \<open>C3: the backend result and the completion event, in either order\<close>

text \<open>
  C3, as amended. The result of the backend call and the completion event of a pull may
  arrive in either order. The completion event, first or second, removes the progress
  entry of its id and starts a catalog refresh. The successful result of the call, first
  or second, leaves the progress map alone and starts no refresh: it goes on to select
  the model. A failed result removes the entry and starts no refresh. Once the successful
  result (with its settings write) and the completion event have both been handled, the
  state is the same in either order, apart from the order of the notifications: the entry
  is gone and one refresh was started.
\<close>

theorem C3_result_and_completion_orders:
  "Map_get (pullProgress (onPullComplete modelId s)) modelId = None
   \<and> calls (onPullComplete modelId s) = calls s @ [GetAvailableAiModels]
   \<and> pullProgress (handleModelPull_result modelId (Resolved (Ok ())) s) = pullProgress s
   \<and> calls (handleModelPull_result modelId (Resolved (Ok ())) s) = calls s
   \<and> pullProgress (handleModelSelect_settled modelId w s) = pullProgress s
   \<and> calls (handleModelSelect_settled modelId w s) = calls s
   \<and> Map_get (pullProgress (handleModelPull_result modelId (Resolved (Err e)) s)) modelId = None
   \<and> calls (handleModelPull_result modelId (Resolved (Err e)) s) = calls s
   \<and> (handleModelSelect_settled modelId w
         (handleModelPull_result modelId (Resolved (Ok ())) (onPullComplete modelId s)))
        \<lparr>toasts := []\<rparr>
      = (onPullComplete modelId
          (handleModelSelect_settled modelId w (handleModelPull_result modelId (Resolved (Ok ())) s)))
        \<lparr>toasts := []\<rparr>"
  by (cases w) (simp_all add: selector_defs Map_get_delete)

text \<open>The pull of \<open>fast-1b\<close> in flight: completion first, then the result.\<close>

theorem C3_result_and_completion_orders_witness:
  "Map_get (pullProgress (onPullComplete (js ''fast-1b'') pulling_state)) (js ''fast-1b'') = None
   \<and> calls (onPullComplete (js ''fast-1b'') pulling_state)
       = [GetAvailableAiModels, CheckOllamaAvailable, GetRecommendedAiModel,
          PullOllamaModel (js ''fast-1b''), GetAvailableAiModels]
   \<and> pullProgress (handleModelPull_result (js ''fast-1b'') (Resolved (Ok ())) pulling_state)
       = [(js ''fast-1b'', downloading (js ''fast-1b'') 50)]"
  using C3_result_and_completion_orders [of "js ''fast-1b''" pulling_state "Resolved ()" "[]"]
  by (simp add: pulling_state_def available_state_def selector_defs downloading_def)

text \<open>
  C3 as stated fails. When the successful result arrives first, the progress entry of
  \<open>fast-1b\<close> stays and no backend call is made, so no catalog refresh; and when the
  completion event came first and has removed the entry, the result arriving second still
  changes the state.
\<close>

theorem C3_result_first_counterexample:
  "Map_get (pullProgress pulling_state) (js ''fast-1b'') \<noteq> None
   \<and> Map_get (pullProgress (handleModelPull_result (js ''fast-1b'') (Resolved (Ok ())) pulling_state))
        (js ''fast-1b'') \<noteq> None
   \<and> calls (handleModelPull_result (js ''fast-1b'') (Resolved (Ok ())) pulling_state)
       = calls pulling_state
   \<and> Map_get (pullProgress (onPullComplete (js ''fast-1b'') pulling_state)) (js ''fast-1b'') = None
   \<and> handleModelPull_result (js ''fast-1b'') (Resolved (Ok ()))
         (onPullComplete (js ''fast-1b'') pulling_state)
       \<noteq> onPullComplete (js ''fast-1b'') pulling_state"
  by (simp add: pulling_state_def available_state_def selector_defs downloading_def js_def)

subsection \<open>C4: a successful pull selects the model\<close>

text \<open>
  C4. When the backend call of \<open>handleModelPull\<close> returns success, the handler does what
  \<open>handleModelSelect\<close> does: it hands the id to \<open>updateSetting\<close>, and once that write has
  resolved the id is the persisted selected model, the dropdown is closed and the status
  is \<open>ready\<close>; this holds for the stretch after the write from any state, and for the
  whole handler run from any state.
\<close>

theorem C4_pull_success_selects:
  "handleModelPull_result modelId (Resolved (Ok ())) s = handleModelSelect_call modelId s
   \<and> setting_writes (handleModelSelect_call modelId s) = setting_writes s @ [Some modelId]
   \<and> ai_selected_model (handleModelSelect_settled modelId (Resolved ()) t) = Some modelId
   \<and> selectedModel (handleModelSelect_settled modelId (Resolved ()) t) = modelId
   \<and> showDropdown (handleModelSelect_settled modelId (Resolved ()) t) = False
   \<and> modelStatus (handleModelSelect_settled modelId (Resolved ()) t) = Ready
   \<and> handleModelPull modelId (Resolved (Ok ())) w s
       = handleModelSelect modelId w (handleModelPull_call modelId s)
   \<and> ai_selected_model (handleModelPull modelId (Resolved (Ok ())) (Resolved ()) s) = Some modelId
   \<and> showDropdown (handleModelPull modelId (Resolved (Ok ())) (Resolved ()) s) = False
   \<and> modelStatus (handleModelPull modelId (Resolved (Ok ())) (Resolved ()) s) = Ready
   \<and> setting_writes (handleModelPull modelId (Resolved (Ok ())) (Resolved ()) s)
       = setting_writes s @ [Some modelId]"
  by (cases w) (simp_all add: selector_defs selectedModel_def handleModelSelect_def)

text \<open>The pull of \<open>fast-1b\<close> from the mounted selector, with the dropdown open.\<close>

theorem C4_pull_success_selects_witness:
  "ai_selected_model
     (handleModelPull (js ''fast-1b'') (Resolved (Ok ())) (Resolved ())
        (available_state\<lparr>showDropdown := True\<rparr>)) = Some (js ''fast-1b'')
   \<and> showDropdown
       (handleModelPull (js ''fast-1b'') (Resolved (Ok ())) (Resolved ())
          (available_state\<lparr>showDropdown := True\<rparr>)) = False
   \<and> modelStatus
       (handleModelPull (js ''fast-1b'') (Resolved (Ok ())) (Resolved ())
          (available_state\<lparr>showDropdown := True\<rparr>)) = Ready
   \<and> setting_writes
       (handleModelPull (js ''fast-1b'') (Resolved (Ok ())) (Resolved ())
          (available_state\<lparr>showDropdown := True\<rparr>)) = [Some (js ''fast-1b'')]"
  using C4_pull_success_selects
      [of "js ''fast-1b''" "available_state\<lparr>showDropdown := True\<rparr>" _ "Resolved ()"]
  by (simp add: available_state_def selector_defs handleModelSelect_def)

subsection \<open>C5: the downloaded-membership check\<close>

text \<open>
  C5. The dropdown's \<open>isModelDownloaded\<close> reports a catalog id as downloaded exactly when
  some entry of the downloaded-models list starts with the id, and so reports \<open>fast-1b\<close>
  as downloaded for the list \<open>["fast-1b-q4"]\<close>. The status indicator's \<open>checkStatus\<close>
  tests the same list with \<open>includes\<close>, an exact match: for the selected model \<open>fast-1b\<close>
  and that list it does not find the model and sets the status \<open>loading\<close>, not \<open>ready\<close>.
\<close>

theorem C5_downloaded_membership:
  "(isModelDownloaded ds modelId \<longleftrightarrow> (\<exists>m \<in> set ds. prefix modelId m))
   \<and> isModelDownloaded [js ''fast-1b-q4''] (js ''fast-1b'')
   \<and> ind_status
        (checkStatus True (js ''fast-1b'') (Resolved (Ok True)) (Resolved (Ok [js ''fast-1b-q4'']))
           (indicator_initial (Some (js ''fast-1b'')))) = Ai_loading"
  by (simp add: isModelDownloaded_def some_iff_Bex startsWith_prefix js_def checkStatus_def
      checkStatus_available_def checkStatus_call_def checkStatus_models_def invoke_def
      indicator_initial_def)

text \<open>The prefix rule on the same list: \<open>fast-1b\<close> is downloaded and \<open>fast-3b\<close> is not.\<close>

theorem C5_downloaded_membership_witness:
  "isModelDownloaded [js ''fast-1b-q4''] (js ''fast-1b'')
   \<and> \<not> isModelDownloaded [js ''fast-1b-q4''] (js ''fast-3b'')"
  using C5_downloaded_membership [of "[js ''fast-1b-q4'']" "js ''fast-3b''"]
  by (simp add: js_def)

subsection \<open>C6: deleting the selected model\<close>

text \<open>
  C6. When the delete call succeeds and the deleted id is the selected model, then, after
  \<open>loadModels\<close> has run (whatever its two results are), the handler hands \<open>null\<close> to
  \<open>updateSetting\<close>, and once that write has resolved the selected model is unset and the
  status is \<open>not_installed\<close>. This holds for the last stretch of the handler from any
  state, and for the whole run from any state whose selected model is the id; the
  downloaded-models list is then the one the refresh returned.
\<close>

theorem C6_delete_selected_clears_selection:
  "ai_selected_model (handleModelDelete_settled modelId modelId (Resolved ()) t) = None
   \<and> modelStatus (handleModelDelete_settled modelId modelId (Resolved ()) t) = Not_installed
   \<and> (selectedModel s = modelId \<longrightarrow>
        (let s' = handleModelDelete modelId True (Resolved (Ok ())) ra rd (Resolved ()) s in
         ai_selected_model s' = None \<and> selectedModel s' = [] \<and> modelStatus s' = Not_installed
         \<and> setting_writes s' = setting_writes s @ [None]
         \<and> calls s' = calls s @ [DeleteOllamaModel modelId, GetAvailableAiModels]
              @ (case ra of Resolved a \<Rightarrow> [ListOllamaModels] | Rejected \<Rightarrow> [])
         \<and> (\<forall>a d. ra = Resolved a \<and> rd = Resolved (Ok d) \<longrightarrow> downloadedModels s' = d)))"
  by (cases ra; cases rd)
    (auto simp: delete_defs selector_defs selectedModel_def Let_def split: result.splits)

text \<open>Deleting \<open>fast-1b\<close> while it is the selected model; the refresh returns empty lists.\<close>

theorem C6_delete_selected_clears_selection_witness:
  "selectedModel selected_state = js ''fast-1b''
   \<and> ai_selected_model
        (handleModelDelete (js ''fast-1b'') True (Resolved (Ok ())) (Resolved (Ok []))
           (Resolved (Ok [])) (Resolved ()) selected_state) = None
   \<and> modelStatus
        (handleModelDelete (js ''fast-1b'') True (Resolved (Ok ())) (Resolved (Ok []))
           (Resolved (Ok [])) (Resolved ()) selected_state) = Not_installed
   \<and> downloadedModels
        (handleModelDelete (js ''fast-1b'') True (Resolved (Ok ())) (Resolved (Ok []))
           (Resolved (Ok [])) (Resolved ()) selected_state) = []"
  using C6_delete_selected_clears_selection
      [of "js ''fast-1b''" _ selected_state "Resolved (Ok [])" "Resolved (Ok [])"]
  by (simp add: selected_state_def selector_defs selectedModel_def Let_def)

subsection \<open>C7: a failed pull\<close>

text \<open>
  C7. When the backend call of a pull returns failure, the progress entry of the id is
  removed, the status is \<open>error\<close>, and the error notification carries the backend's
  message as it is, or \<open>Failed to pull model\<close> when the message is empty; a rejected call
  does the same with the generic message. Nothing is handed to \<open>updateSetting\<close> and the
  persisted selection is unchanged, in the result's stretch and over the whole handler.
\<close>

theorem C7_pull_failure:
  "Map_get (pullProgress (handleModelPull_result modelId (Resolved (Err e)) s)) modelId = None
   \<and> modelStatus (handleModelPull_result modelId (Resolved (Err e)) s) = Error
   \<and> toasts (handleModelPull_result modelId (Resolved (Err e)) s)
       = toasts s @ [Toast_error (if e = [] then js ''Failed to pull model'' else e)]
   \<and> ai_selected_model (handleModelPull_result modelId (Resolved (Err e)) s) = ai_selected_model s
   \<and> setting_writes (handleModelPull_result modelId (Resolved (Err e)) s) = setting_writes s
   \<and> handleModelPull modelId (Resolved (Err e)) w s
       = handleModelPull_result modelId (Resolved (Err e)) (handleModelPull_call modelId s)
   \<and> ai_selected_model (handleModelPull modelId (Resolved (Err e)) w s) = ai_selected_model s
   \<and> setting_writes (handleModelPull modelId (Resolved (Err e)) w s) = setting_writes s
   \<and> Map_get (pullProgress (handleModelPull_result modelId Rejected s)) modelId = None
   \<and> modelStatus (handleModelPull_result modelId Rejected s) = Error
   \<and> toasts (handleModelPull_result modelId Rejected s)
       = toasts s @ [Toast_error (js ''Failed to pull model'')]
   \<and> ai_selected_model (handleModelPull modelId Rejected w s) = ai_selected_model s
   \<and> setting_writes (handleModelPull modelId Rejected w s) = setting_writes s"
  by (simp add: selector_defs Map_get_delete orElse_def)

text \<open>The pull of \<open>fast-1b\<close> in flight fails with \<open>disk full\<close>, and with an empty message.\<close>

theorem C7_pull_failure_witness:
  "pullProgress
     (handleModelPull_result (js ''fast-1b'') (Resolved (Err (js ''disk full''))) pulling_state) = []
   \<and> modelStatus
       (handleModelPull_result (js ''fast-1b'') (Resolved (Err (js ''disk full''))) pulling_state)
      = Error
   \<and> last (toasts
       (handleModelPull_result (js ''fast-1b'') (Resolved (Err (js ''disk full''))) pulling_state))
      = Toast_error (js ''disk full'')
   \<and> last (toasts (handleModelPull_result (js ''fast-1b'') (Resolved (Err [])) pulling_state))
      = Toast_error (js ''Failed to pull model'')
   \<and> ai_selected_model
       (handleModelPull_result (js ''fast-1b'') (Resolved (Err (js ''disk full''))) pulling_state)
      = None"
  using C7_pull_failure [of "js ''fast-1b''" "js ''disk full''" pulling_state]
    C7_pull_failure [of "js ''fast-1b''" "[]" pulling_state]
  by (simp add: pulling_state_def available_state_def selector_defs downloading_def js_def)

subsection \<open>C8: the percentage over a sequence of progress events\<close>

text \<open>
  C8, as amended. The progress listener stores each event's payload as it is, the last
  write winning: over any sequence of progress events for a never-completed model id,
  the percentage read for the id after each event is that event's percentage, and an
  event for another id leaves the reading alone. So the reading never decreases provided
  the backend's successive percentages do not, and it and its rounded label are never
  above 100 provided no event's percentage is (rounding is monotone). The width of the
  progress bar is capped at 100 whatever the percentage is.
\<close>

theorem C8_percentage_last_write_wins:
  "((\<forall>p \<in> set evs. model_id p = modelId) \<longrightarrow>
       shownAfterEach s evs modelId = map (\<lambda>p. Some (percentage p)) evs
       \<and> (sorted (map percentage evs) \<longrightarrow> sorted (map the (shownAfterEach s evs modelId)))
       \<and> ((\<forall>p \<in> set evs. percentage p \<le> 100) \<longrightarrow>
            (\<forall>r \<in> set (shownAfterEach s evs modelId).
               \<exists>x. r = Some x \<and> x \<le> 100 \<and> Math_round x \<le> 100)))
   \<and> (model_id p \<noteq> modelId \<longrightarrow>
        shownPercentage (onPullProgress p s) modelId = shownPercentage s modelId)
   \<and> (x \<le> y \<longrightarrow> Math_round x \<le> Math_round y)
   \<and> progressBarWidth p \<le> 100"
proof -
  have "sorted (map the (shownAfterEach s evs modelId))"
    if "\<forall>p \<in> set evs. model_id p = modelId" "sorted (map percentage evs)"
    using that by (simp add: shownAfterEach_same_id comp_def)
  moreover have "\<forall>r \<in> set (shownAfterEach s evs modelId).
      \<exists>x. r = Some x \<and> x \<le> 100 \<and> Math_round x \<le> 100"
    if "\<forall>p \<in> set evs. model_id p = modelId" "\<forall>p \<in> set evs. percentage p \<le> 100"
    using that by (auto simp: shownAfterEach_same_id Math_round_le_100)
  ultimately show ?thesis
    by (simp add: shownAfterEach_same_id shownPercentage_onPullProgress Math_round_mono
        progressBarWidth_def)
qed

text \<open>Events at 30 and then 50 per cent read 30 and then 50; a bar at 150 is 100 wide.\<close>

theorem C8_percentage_last_write_wins_witness:
  "shownAfterEach available_state
      [downloading (js ''fast-1b'') 30, downloading (js ''fast-1b'') 50] (js ''fast-1b'')
     = [Some 30, Some 50]
   \<and> progressBarWidth (downloading (js ''fast-1b'') 150) = 100"
  using C8_percentage_last_write_wins
      [of "[downloading (js ''fast-1b'') 30, downloading (js ''fast-1b'') 50]" "js ''fast-1b''"
        available_state "downloading (js ''fast-1b'') 150"]
  by (simp add: downloading_def progressBarWidth_def)

text \<open>
  C8 as stated fails: for progress events of \<open>fast-1b\<close> at 50 and then at 30 per cent,
  with no completion, the percentage read goes from 50 down to 30, and the display from
  \<open>Pulling 50%\<close> to \<open>Pulling 30%\<close>.
\<close>

theorem C8_percentage_decreases_counterexample:
  "shownAfterEach available_state
      [downloading (js ''fast-1b'') 50, downloading (js ''fast-1b'') 30] (js ''fast-1b'')
     = [Some 50, Some 30]
   \<and> getDisplayText (onPullProgress (downloading (js ''fast-1b'') 50) available_state)
       = js ''Pulling 50%''
   \<and> getDisplayText
        (onPullProgress (downloading (js ''fast-1b'') 30)
           (onPullProgress (downloading (js ''fast-1b'') 50) available_state))
       = js ''Pulling 30%''"
  by (simp add: shownPercentage_def getModelProgress_def available_state_def selector_defs
      downloading_def getDisplayText_def Map_values_def toString_def Math_round_round js_def)

subsection \<open>C9: a completion event clears its own model only\<close>

text \<open>
  C9. A completion event removes the progress entry of its own id and nothing else: the
  map afterwards is the map before without that id's entry, in the same order. So after
  a successful backend call of a pull of one id, settings write included, a completion
  event for a different id leaves the entry of the first id as it was, and so does a
  progress event for a different id; the entry goes with the id's own completion event
  or with a failed or rejected result of its pull.
\<close>

theorem C9_completion_clears_own_entry_only:
  "pullProgress (onPullComplete other s) = filter (\<lambda>e. fst e \<noteq> other) (pullProgress s)
   \<and> (other \<noteq> modelId \<longrightarrow>
        Map_get (pullProgress (onPullComplete other s)) modelId = Map_get (pullProgress s) modelId)
   \<and> (other \<noteq> modelId \<longrightarrow>
        Map_get (pullProgress (onPullComplete other
            (handleModelSelect_settled modelId w
               (handleModelPull_result modelId (Resolved (Ok ())) s)))) modelId
          = Map_get (pullProgress s) modelId)
   \<and> (model_id p \<noteq> modelId \<longrightarrow>
        Map_get (pullProgress (onPullProgress p s)) modelId = Map_get (pullProgress s) modelId)
   \<and> Map_get (pullProgress (onPullComplete modelId s)) modelId = None
   \<and> Map_get (pullProgress (handleModelPull_result modelId (Resolved (Err e)) s)) modelId = None
   \<and> Map_get (pullProgress (handleModelPull_result modelId Rejected s)) modelId = None"
  by (cases w)
    (simp_all add: selector_defs Map_get_delete Map_get_set Map_delete_filter [symmetric])

text \<open>
  Two pulls in flight: the call for \<open>fast-1b\<close> succeeds, then \<open>big-7b\<close> completes; the
  entry of \<open>fast-1b\<close> is still there.
\<close>

theorem C9_completion_clears_own_entry_only_witness:
  "pullProgress two_pulls
     = [(js ''fast-1b'', downloading (js ''fast-1b'') 50),
        (js ''big-7b'', downloading (js ''big-7b'') 10)]
   \<and> pullProgress
        (onPullComplete (js ''big-7b'')
           (handleModelSelect_settled (js ''fast-1b'') (Resolved ())
              (handleModelPull_result (js ''fast-1b'') (Resolved (Ok ())) two_pulls)))
      = [(js ''fast-1b'', downloading (js ''fast-1b'') 50)]
   \<and> Map_get
        (pullProgress
           (onPullComplete (js ''big-7b'')
              (handleModelSelect_settled (js ''fast-1b'') (Resolved ())
                 (handleModelPull_result (js ''fast-1b'') (Resolved (Ok ())) two_pulls))))
        (js ''fast-1b'')
      = Some (downloading (js ''fast-1b'') 50)"
  using C9_completion_clears_own_entry_only
      [of "js ''big-7b''" two_pulls "js ''fast-1b''" "Resolved ()"]
  by (simp add: two_pulls_def pulling_state_def available_state_def selector_defs
      downloading_def js_def)

subsection \<open>C10: testing a blank text\<close>

text \<open>
  C10. When the test text is empty or all of its code units are white space,
  \<open>handleTestEnhancement\<close> makes no backend call, shows the error notification
  \<open>Please enter some text to test\<close>, and leaves the shown result and the testing flag
  as they were: the notification is the only change to the state, whatever the backend
  would have answered.
\<close>

theorem C10_blank_test_text_rejected:
  "(\<forall>c \<in> set (testText s). isWhiteSpace c) \<longrightarrow>
     calls (handleTestEnhancement r s) = calls s
     \<and> toasts (handleTestEnhancement r s)
         = toasts s @ [Toast_error (js ''Please enter some text to test'')]
     \<and> testResult (handleTestEnhancement r s) = testResult s
     \<and> isTesting (handleTestEnhancement r s) = isTesting s
     \<and> handleTestEnhancement r s
         = s\<lparr>toasts := toasts s @ [Toast_error (js ''Please enter some text to test'')]\<rparr>"
  by (simp add: handleTestEnhancement_def handleTestEnhancement_call_def trim_empty_iff
      toast_show_def)

text \<open>The panel whose text is SP, TAB, NBSP, LF and whose last result is still shown.\<close>

theorem C10_blank_test_text_rejected_witness:
  "list_all isWhiteSpace (testText blank_panel)
   \<and> trim (testText blank_panel) = []
   \<and> calls (handleTestEnhancement (Resolved (Ok (js ''x''))) blank_panel) = []
   \<and> toasts (handleTestEnhancement (Resolved (Ok (js ''x''))) blank_panel)
       = [Toast_error (js ''Please enter some text to test'')]
   \<and> testResult (handleTestEnhancement (Resolved (Ok (js ''x''))) blank_panel)
       = js ''Hello, world.''
   \<and> isTesting (handleTestEnhancement (Resolved (Ok (js ''x''))) blank_panel) = False"
proof -
  have blank: "\<forall>c \<in> set (testText blank_panel). isWhiteSpace c"
    by (simp add: blank_panel_def isWhiteSpace_def)
  show ?thesis
    using blank C10_blank_test_text_rejected [of blank_panel "Resolved (Ok (js ''x''))"]
    by (simp add: list_all_iff trim_empty_iff) (simp add: blank_panel_def)
qed

end
